theory Spec2Isabelle
  imports Main "HOL-Library.Sublist"
begin

section \<open>Strings\<close>

text \<open>
  A Python \<^verbatim>\<open>str\<close> is modelled as a \<^typ>\<open>string\<close>. A \<^typ>\<open>char\<close> stands for the
  code point with the same number, so the model covers the strings whose code points are
  below 256 (ASCII and the Latin-1 supplement). On that range \<^verbatim>\<open>str.isspace\<close> and
  \<^verbatim>\<open>str.lower\<close> are the two tables below: the white space characters are
  U+0009..U+000D, U+001C..U+0020, U+0085 and U+00A0, and the letters with a lower-case
  form are A..Z, U+00C0..U+00D6 and U+00D8..U+00DE, each 32 below its lower-case form.
\<close>

definition isspace :: "char \<Rightarrow> bool" where
  "isspace c = (let n = (of_char c :: nat) in
     (9 \<le> n \<and> n \<le> 13) \<or> (28 \<le> n \<and> n \<le> 32) \<or> n = 133 \<or> n = 160)"

definition lower_char :: "char \<Rightarrow> char" where
  "lower_char c = (let n = (of_char c :: nat) in
     if (65 \<le> n \<and> n \<le> 90) \<or> (192 \<le> n \<and> n \<le> 214) \<or> (216 \<le> n \<and> n \<le> 222)
     then char_of (n + 32) else c)"

definition lower :: "string \<Rightarrow> string" where
  "lower s = map lower_char s"

text \<open>\<^verbatim>\<open>s.strip()\<close>: white space is removed at both ends.\<close>

definition strip :: "string \<Rightarrow> string" where
  "strip s = rev (dropWhile isspace (rev (dropWhile isspace s)))"

definition startswith :: "string \<Rightarrow> string \<Rightarrow> bool" where
  "startswith s p = prefix p s"

text \<open>\<^verbatim>\<open>s.split(c)\<close> for a separator of one character; the result is never empty.\<close>

fun split_chr :: "char \<Rightarrow> string \<Rightarrow> string list" where
  "split_chr c [] = [[]]"
| "split_chr c (x # xs) =
     (if x = c then [] # split_chr c xs
      else (case split_chr c xs of
              [] \<Rightarrow> [[x]]
            | w # ws \<Rightarrow> (x # w) # ws))"

text \<open>\<^verbatim>\<open>s.partition(c)\<close>: the part before the first \<open>c\<close>, the separator, and the rest.\<close>

definition partition_chr :: "char \<Rightarrow> string \<Rightarrow> string \<times> string \<times> string" where
  "partition_chr c s =
     (if c \<in> set s
      then (takeWhile (\<lambda>x. x \<noteq> c) s, [c], drop 1 (dropWhile (\<lambda>x. x \<noteq> c) s))
      else (s, [], []))"

text \<open>\<^verbatim>\<open>k in s\<close> on two strings: \<open>k\<close> occurs in \<open>s\<close> as a contiguous piece.\<close>

fun is_substring :: "string \<Rightarrow> string \<Rightarrow> bool" where
  "is_substring k [] = (k = [])"
| "is_substring k (c # cs) = (prefix k (c # cs) \<or> is_substring k cs)"

text \<open>
  \<^verbatim>\<open>re.match(r'^[a-z\-]+$', s)\<close>. The class holds a..z and the hyphen. Without
  flags, \<^verbatim>\<open>$\<close> matches at the end of the string and also just before a line feed
  that ends the string.
\<close>

definition coin_char :: "char \<Rightarrow> bool" where
  "coin_char c = (let n = (of_char c :: nat) in (97 \<le> n \<and> n \<le> 122) \<or> n = 45)"

definition re_match_coin :: "string \<Rightarrow> bool" where
  "re_match_coin s =
     (let t = (if s \<noteq> [] \<and> last s = CHR 0x0A then butlast s else s)
      in t \<noteq> [] \<and> list_all coin_char t)"

section \<open>Python values and exceptions\<close>

text \<open>
  The values a decoded JSON body can hold. A float is kept as mantissa and binary
  exponent; only whether it is zero matters here. A dictionary is an association list
  with distinct keys.
\<close>

datatype pyval =
    PNone
  | PBool bool
  | PInt int
  | PFloat int int
  | PStr string
  | PList "pyval list"
  | PDict "(string \<times> pyval) list"

fun truthy :: "pyval \<Rightarrow> bool" where
  "truthy PNone = False"
| "truthy (PBool b) = b"
| "truthy (PInt i) = (i \<noteq> 0)"
| "truthy (PFloat m e) = (m \<noteq> 0)"
| "truthy (PStr s) = (s \<noteq> [])"
| "truthy (PList xs) = (xs \<noteq> [])"
| "truthy (PDict kvs) = (kvs \<noteq> [])"

fun type_name :: "pyval \<Rightarrow> string" where
  "type_name PNone = ''NoneType''"
| "type_name (PBool b) = ''bool''"
| "type_name (PInt i) = ''int''"
| "type_name (PFloat m e) = ''float''"
| "type_name (PStr s) = ''str''"
| "type_name (PList xs) = ''list''"
| "type_name (PDict kvs) = ''dict''"

text \<open>
  \<open>Raised m\<close> is an exception of the HTTP library or of JSON decoding whose text
  \<^verbatim>\<open>str(e)\<close> is \<open>m\<close>. The others are raised by the interpreter: a missing attribute
  (type of the object, attribute), an operation the type does not support (type of the
  object), a missing key, an index out of range, and the end of the input.
\<close>

datatype exn =
    Raised string
  | AttributeError string string
  | TypeError string
  | KeyError pyval
  | IndexError
  | EOFError

definition and_then :: "exn + 'a \<Rightarrow> ('a \<Rightarrow> exn + 'b) \<Rightarrow> exn + 'b" where
  "and_then r f = (case r of Inl e \<Rightarrow> Inl e | Inr x \<Rightarrow> f x)"

text \<open>\<^verbatim>\<open>d.get(k, default)\<close>: only a dictionary has the method.\<close>

definition py_get :: "pyval \<Rightarrow> string \<Rightarrow> pyval \<Rightarrow> exn + pyval" where
  "py_get d k dflt =
     (case d of
        PDict kvs \<Rightarrow> Inr (case map_of kvs k of Some v \<Rightarrow> v | None \<Rightarrow> dflt)
      | _ \<Rightarrow> Inl (AttributeError (type_name d) ''get''))"

text \<open>\<^verbatim>\<open>k in d\<close> for a string \<open>k\<close>.\<close>

definition py_contains :: "pyval \<Rightarrow> string \<Rightarrow> exn + bool" where
  "py_contains d k =
     (case d of
        PDict kvs \<Rightarrow> Inr (k \<in> set (map fst kvs))
      | PList xs \<Rightarrow> Inr (PStr k \<in> set xs)
      | PStr s \<Rightarrow> Inr (is_substring k s)
      | _ \<Rightarrow> Inl (TypeError (type_name d)))"

text \<open>\<^verbatim>\<open>d[k]\<close> for a string \<open>k\<close>: a list and a string take integer indices only.\<close>

definition py_index_str :: "pyval \<Rightarrow> string \<Rightarrow> exn + pyval" where
  "py_index_str d k =
     (case d of
        PDict kvs \<Rightarrow> (case map_of kvs k of Some v \<Rightarrow> Inr v | None \<Rightarrow> Inl (KeyError (PStr k)))
      | _ \<Rightarrow> Inl (TypeError (type_name d)))"

text \<open>\<^verbatim>\<open>d[0]\<close>. The keys of a decoded JSON object are strings, so 0 is never one.\<close>

definition py_index0 :: "pyval \<Rightarrow> exn + pyval" where
  "py_index0 d =
     (case d of
        PList xs \<Rightarrow> (case xs of [] \<Rightarrow> Inl IndexError | x # _ \<Rightarrow> Inr x)
      | PStr s \<Rightarrow> (case s of [] \<Rightarrow> Inl IndexError | c # _ \<Rightarrow> Inr (PStr [c]))
      | PDict kvs \<Rightarrow> Inl (KeyError (PInt 0))
      | _ \<Rightarrow> Inl (TypeError (type_name d)))"

text \<open>
  \<^verbatim>\<open>d[:3]\<close>, read as the sequence a comprehension then iterates over. Slicing a
  dictionary raises too (a \<open>TypeError\<close> before Python 3.12, a \<open>KeyError\<close> since); the
  program only ever asks such an exception for its text, which the world gives.
\<close>

definition py_slice3 :: "pyval \<Rightarrow> exn + pyval list" where
  "py_slice3 d =
     (case d of
        PList xs \<Rightarrow> Inr (take 3 xs)
      | PStr s \<Rightarrow> Inr (map (\<lambda>c. PStr [c]) (take 3 s))
      | _ \<Rightarrow> Inl (TypeError (type_name d)))"

fun map_exn :: "('a \<Rightarrow> exn + 'b) \<Rightarrow> 'a list \<Rightarrow> exn + 'b list" where
  "map_exn f [] = Inr []"
| "map_exn f (x # xs) =
     and_then (f x) (\<lambda>y. and_then (map_exn f xs) (\<lambda>ys. Inr (y # ys)))"

section \<open>The environment\<close>

text \<open>
  Everything the program does to the outside is an event, and a run is the list of its
  events in order: a line printed, the prompt of \<^verbatim>\<open>input\<close>, a record handed to
  \<^verbatim>\<open>logging\<close> (its message, without the traceback), an HTTP GET of a URL, and an HTTP
  POST of a chat request to an endpoint.
\<close>

record chat_request =
  system_msg :: string
  user_msg :: string
  temperature :: string
  max_tokens :: nat

datatype event =
    Print string
  | Prompt string
  | Log string
  | HttpGet string
  | HttpPost string chat_request

text \<open>
  An HTTP response: the status code, what \<^verbatim>\<open>response.json()\<close> gives (the decoded
  body, or the exception of the decoder), and the text of the error that
  \<^verbatim>\<open>raise_for_status\<close> raises for a status from 400 to 599.
\<close>

record response =
  status_code :: int
  json :: "exn + pyval"
  http_error :: string

definition raise_for_status :: "response \<Rightarrow> exn + unit" where
  "raise_for_status r =
     (if 400 \<le> status_code r \<and> status_code r < 600 then Inl (Raised (http_error r))
      else Inr ())"

text \<open>
  The world answers what the code cannot decide: the environment variables, the outcome of
  each request (which may depend on everything that happened before it), and the Python
  library functions whose tables are not part of the program: \<^verbatim>\<open>str()\<close> of numbers and
  containers, \<^verbatim>\<open>str(e)\<close> of an interpreter exception, \<^verbatim>\<open>str.upper\<close> and
  \<^verbatim>\<open>str.capitalize\<close>.
\<close>

record world =
  getenv :: "string \<Rightarrow> string option"
  http_get :: "event list \<Rightarrow> string \<Rightarrow> exn + response"
  http_post :: "event list \<Rightarrow> string \<Rightarrow> chat_request \<Rightarrow> exn + response"
  str_other :: "pyval \<Rightarrow> string"
  exn_text :: "exn \<Rightarrow> string"
  py_upper :: "string \<Rightarrow> string"
  py_capitalize :: "string \<Rightarrow> string"

definition py_str :: "world \<Rightarrow> pyval \<Rightarrow> string" where
  "py_str w v =
     (case v of
        PStr s \<Rightarrow> s
      | PNone \<Rightarrow> ''None''
      | PBool b \<Rightarrow> (if b then ''True'' else ''False'')
      | _ \<Rightarrow> str_other w v)"

definition exn_str :: "world \<Rightarrow> exn \<Rightarrow> string" where
  "exn_str w e = (case e of Raised m \<Rightarrow> m | _ \<Rightarrow> exn_text w e)"

section \<open>The data-source adapters\<close>

text \<open>
  Each adapter takes the world, the events so far and its argument, and returns its result
  with the events extended. The body of each \<^verbatim>\<open>try\<close> is a function into
  \<^typ>\<open>exn + 'a\<close>; the \<^verbatim>\<open>except Exception\<close> clause is the \<open>Inl\<close> case of the adapter,
  which logs and returns the tagged text, so no adapter raises.
\<close>

definition invalid_crypto_msg :: string where
  "invalid_crypto_msg =
     ''Invalid cryptocurrency format - use names like 'bitcoin' not symbols.''"

definition crypto_url :: "string \<Rightarrow> string" where
  "crypto_url coin_id =
     ''https://api.coingecko.com/api/v3/simple/price?ids='' @ coin_id @ ''&vs_currencies=usd''"

definition crypto_body :: "world \<Rightarrow> string \<Rightarrow> response \<Rightarrow> exn + string" where
  "crypto_body w coin_id resp =
     (if status_code resp \<noteq> 200 then
        and_then (json resp) (\<lambda>d.
        and_then (py_get d ''error'' (PStr ''Unknown error'')) (\<lambda>error_message.
        Inr (''Crypto API Error: '' @ py_str w error_message)))
      else
        and_then (json resp) (\<lambda>data.
        and_then (py_contains data coin_id) (\<lambda>present.
        if \<not> present then Inr (''Unknown cryptocurrency: '' @ coin_id)
        else
          and_then (py_index_str data coin_id) (\<lambda>entry.
          and_then (py_get entry ''usd'' PNone) (\<lambda>price.
          if price = PNone then Inr (''Price data not available for '' @ coin_id)
          else Inr (py_capitalize w coin_id @ '': $'' @ py_str w price))))))"

definition crypto_asset :: "world \<Rightarrow> event list \<Rightarrow> string \<Rightarrow> string \<times> event list" where
  "crypto_asset w tr query =
     (let coin_id = lower (strip query) in
      if \<not> re_match_coin coin_id then (invalid_crypto_msg, tr)
      else
        (let url = crypto_url coin_id; tr1 = tr @ [HttpGet url] in
         case and_then (http_get w tr url) (crypto_body w coin_id) of
           Inr text \<Rightarrow> (text, tr1)
         | Inl e \<Rightarrow> (''Crypto Error: '' @ exn_str w e,
                     tr1 @ [Log ''Error fetching cryptocurrency data''])))"

definition stock_body :: "world \<Rightarrow> string \<Rightarrow> response \<Rightarrow> exn + string" where
  "stock_body w symbol resp =
     and_then (json resp) (\<lambda>data.
     and_then (py_get data ''Global Quote'' PNone) (\<lambda>quote.
     if \<not> truthy quote then Inr (''Stock data not available for '' @ symbol @ ''.'')
     else
       and_then (py_contains quote ''05. price'') (\<lambda>present.
       if \<not> present then Inr (''Stock data not available for '' @ symbol @ ''.'')
       else
         and_then (py_index_str quote ''05. price'') (\<lambda>price.
         Inr (symbol @ '': $'' @ py_str w price)))))"

definition stock_asset :: "world \<Rightarrow> event list \<Rightarrow> string \<Rightarrow> string \<times> event list" where
  "stock_asset w tr symbol0 =
     (let symbol = py_upper w (strip symbol0) in
      case getenv w ''ALPHAVANTAGE_API_KEY'' of
        None \<Rightarrow> (''Stock API Error: Missing API key.'', tr)
      | Some api_key \<Rightarrow>
          if api_key = [] then (''Stock API Error: Missing API key.'', tr)
          else
            (let url = ''https://www.alphavantage.co/query?function=GLOBAL_QUOTE&symbol=''
                         @ symbol @ ''&apikey='' @ api_key;
                 tr1 = tr @ [HttpGet url] in
             case and_then (http_get w tr url) (stock_body w symbol) of
               Inr text \<Rightarrow> (text, tr1)
             | Inl e \<Rightarrow> (''Stock API Error: '' @ exn_str w e,
                         tr1 @ [Log ''Error fetching stock data''])))"

text \<open>\<^verbatim>\<open>v.capitalize()\<close>: only a string has the method.\<close>

definition capitalize_val :: "world \<Rightarrow> pyval \<Rightarrow> exn + string" where
  "capitalize_val w v =
     (case v of
        PStr s \<Rightarrow> Inr (py_capitalize w s)
      | _ \<Rightarrow> Inl (AttributeError (type_name v) ''capitalize''))"

definition weather_body :: "world \<Rightarrow> string \<Rightarrow> response \<Rightarrow> exn + string" where
  "weather_body w location resp =
     (if status_code resp \<noteq> 200 then
        and_then (json resp) (\<lambda>d.
        and_then (py_get d ''message'' (PStr ''Unknown error'')) (\<lambda>error_message.
        Inr (''Weather Error: '' @ py_str w error_message)))
      else
        and_then (json resp) (\<lambda>data.
        and_then (py_get data ''main'' (PDict [])) (\<lambda>main_part.
        and_then (py_get main_part ''temp'' PNone) (\<lambda>temp.
        and_then (py_get data ''weather'' (PList [PDict []])) (\<lambda>weather_list.
        and_then (py_index0 weather_list) (\<lambda>weather0.
        and_then (py_get weather0 ''description'' (PStr [])) (\<lambda>description.
        and_then (capitalize_val w description) (\<lambda>weather_desc.
        and_then (py_get data ''name'' (PStr location)) (\<lambda>city_name.
        if temp = PNone \<or> weather_desc = [] then Inr ''Incomplete weather data received.''
        else Inr (py_str w city_name @ '': '' @ py_str w temp @ [CHR 0xB0] @ ''C, ''
                    @ weather_desc))))))))))"

definition weather_asset :: "world \<Rightarrow> event list \<Rightarrow> string \<Rightarrow> string \<times> event list" where
  "weather_asset w tr location0 =
     (let location = strip location0 in
      case getenv w ''OPENWEATHER_API_KEY'' of
        None \<Rightarrow> (''Weather Error: Missing API key.'', tr)
      | Some api_key \<Rightarrow>
          if api_key = [] then (''Weather Error: Missing API key.'', tr)
          else
            (let url = ''http://api.openweathermap.org/data/2.5/weather?q='' @ location
                         @ ''&appid='' @ api_key @ ''&units=metric'';
                 tr1 = tr @ [HttpGet url] in
             case and_then (http_get w tr url) (weather_body w location) of
               Inr text \<Rightarrow> (text, tr1)
             | Inl e \<Rightarrow> (''Weather Error: '' @ exn_str w e,
                         tr1 @ [Log ''Error fetching weather data''])))"

text \<open>
  The web search returns either a text (an error report) or the list of its items, each
  with the three fields the adapter fills in.
\<close>

record item =
  title :: pyval
  link :: pyval
  snippet :: pyval

datatype web_result = WebText string | WebItems "item list"

definition mk_item :: "pyval \<Rightarrow> exn + item" where
  "mk_item it =
     and_then (py_get it ''title'' (PStr ''No Title'')) (\<lambda>t.
     and_then (py_get it ''link'' (PStr ''No Link'')) (\<lambda>l.
     and_then (py_get it ''snippet'' (PStr [])) (\<lambda>s.
     Inr \<lparr>title = t, link = l, snippet = s\<rparr>)))"

definition web_body :: "response \<Rightarrow> exn + item list" where
  "web_body resp =
     and_then (json resp) (\<lambda>results.
     and_then (py_get results ''items'' (PList [])) (\<lambda>items.
     and_then (py_slice3 items) (\<lambda>first3.
     map_exn mk_item first3)))"

definition web_missing_msg :: string where
  "web_missing_msg = ''Web Search Error: Missing Google API key or Search Engine ID.''"

definition web_url :: "string \<Rightarrow> string \<Rightarrow> string \<Rightarrow> string" where
  "web_url google_api_key search_engine_id query =
     ''https://www.googleapis.com/customsearch/v1?key='' @ google_api_key
       @ ''&cx='' @ search_engine_id @ ''&q='' @ query"

definition web_asset :: "world \<Rightarrow> event list \<Rightarrow> string \<Rightarrow> web_result \<times> event list" where
  "web_asset w tr query =
     (case getenv w ''GOOGLE_API_KEY'' of
        None \<Rightarrow> (WebText web_missing_msg, tr)
      | Some google_api_key \<Rightarrow>
          (case getenv w ''SEARCH_ENGINE_ID'' of
             None \<Rightarrow> (WebText web_missing_msg, tr)
           | Some search_engine_id \<Rightarrow>
               if google_api_key = [] \<or> search_engine_id = []
               then (WebText web_missing_msg, tr)
               else
                 (let url = web_url google_api_key search_engine_id query;
                      tr1 = tr @ [HttpGet url] in
                  case and_then (http_get w tr url) web_body of
                    Inr items \<Rightarrow> (WebItems items, tr1)
                  | Inl e \<Rightarrow> (WebText (''Web Search Error: '' @ exn_str w e),
                              tr1 @ [Log ''Error during web search'']))))"

section \<open>The language-model client\<close>

text \<open>\<^verbatim>\<open>sep.join(xs)\<close>.\<close>

fun join :: "string \<Rightarrow> string list \<Rightarrow> string" where
  "join sep [] = []"
| "join sep [x] = x"
| "join sep (x # y # ys) = x @ sep @ join sep (y # ys)"

definition llm_endpoint :: string where
  "llm_endpoint = ''http://localhost:1234/v1/chat/completions''"

definition system_msg_routing :: string where
  "system_msg_routing = join [CHR 0x0A]
     [''You are a routing assistant. Format responses STRICTLY as:'',
      ''    [agent_type] query'',
      [],
      ''    Available agents:'',
      ''    - crypto_asset: Cryptocurrency prices (e.g., \"[crypto_asset] ethereum\")'',
      ''    - stock_asset: Stock prices (e.g., \"[stock_asset] tsla\")'',
      ''    - weather_asset: Weather (e.g., \"[weather_asset] tokyo\")'',
      ''    - web_asset: Web searches (e.g., \"[web_asset] pixel 9 reviews\")'',
      [],
      ''    If unsure, provide a general answer. NEVER include text outside brackets!'']"

text \<open>
  \<^verbatim>\<open>response.raise_for_status()\<close> followed by
  \<^verbatim>\<open>response.json()["choices"][0]["message"]["content"]\<close>. The content is whatever
  value the body holds there: a string as a rule, but nothing in the code makes it one.
\<close>

definition chat_content :: "response \<Rightarrow> exn + pyval" where
  "chat_content resp =
     and_then (raise_for_status resp) (\<lambda>_.
     and_then (json resp) (\<lambda>body.
     and_then (py_index_str body ''choices'') (\<lambda>choices.
     and_then (py_index0 choices) (\<lambda>choice.
     and_then (py_index_str choice ''message'') (\<lambda>message.
     py_index_str message ''content'')))))"

definition query_llm :: "world \<Rightarrow> event list \<Rightarrow> string \<Rightarrow> pyval \<times> event list" where
  "query_llm w tr prompt =
     (let req = \<lparr>system_msg = system_msg_routing, user_msg = prompt,
                 temperature = ''0.1'', max_tokens = 100\<rparr>;
          tr1 = tr @ [HttpPost llm_endpoint req] in
      case and_then (http_post w tr llm_endpoint req) chat_content of
        Inr content \<Rightarrow> (content, tr1)
      | Inl e \<Rightarrow> (PStr (''LLM Error: '' @ exn_str w e), tr1 @ [Log ''LLM query error'']))"

definition summarize_results ::
  "world \<Rightarrow> event list \<Rightarrow> string \<Rightarrow> item list \<Rightarrow> pyval \<times> event list" where
  "summarize_results w tr query results =
     (let context = join [CHR 0x0A]
                      (map (\<lambda>r. py_str w (title r) @ '': '' @ py_str w (snippet r)) results);
          req = \<lparr>system_msg = ''Summarize web results about '' @ query
                                @ '' in 3 concise points'',
                 user_msg = context, temperature = ''0.3'', max_tokens = 300\<rparr>;
          tr1 = tr @ [HttpPost llm_endpoint req] in
      case and_then (http_post w tr llm_endpoint req) chat_content of
        Inr content \<Rightarrow> (content, tr1)
      | Inl e \<Rightarrow> (PStr (''Summarization Error: '' @ exn_str w e),
                  tr1 @ [Log ''Summarization error'']))"

section \<open>The response parser\<close>

text \<open>
  The module defines \<^verbatim>\<open>parse_llm_response\<close> twice. The second definition is executed
  before \<^verbatim>\<open>main()\<close> is called, so it is the one \<^verbatim>\<open>main\<close> finds under that name; it
  is the one modelled here. An agent type is \<open>None\<close> or \<open>Some\<close> string, the query is a
  Python value: in the last case of the parser it is the response itself.
\<close>

definition agent_labels :: "string list" where
  "agent_labels = [''crypto_asset'', ''stock_asset'', ''weather_asset'', ''web_asset'']"

text \<open>The \<^verbatim>\<open>for\<close> loop over the labels, which returns at the first label that fits.\<close>

fun prefix_fallback :: "string \<Rightarrow> string list \<Rightarrow> (string \<times> string) option" where
  "prefix_fallback response [] = None"
| "prefix_fallback response (agent # agents) =
     (if startswith (lower response) (agent @ '' '')
      then Some (agent, strip (drop (length agent + 1) response))
      else prefix_fallback response agents)"

text \<open>
  The body of the \<^verbatim>\<open>try\<close>. A response that is not a string has no
  \<^verbatim>\<open>startswith\<close>, which is the one exception the body can raise.
\<close>

definition parse_body :: "pyval \<Rightarrow> exn + (string option \<times> pyval)" where
  "parse_body v =
     (case v of
        PStr response \<Rightarrow>
          if startswith response ''['' \<and> CHR '']'' \<in> set response then
            (case partition_chr (CHR '']'') response of
               (agent_part, _, query) \<Rightarrow>
                 (let agent_type = strip (drop 1 agent_part)
                  in Inr (Some agent_type, PStr (strip query))))
          else
            (case prefix_fallback response agent_labels of
               Some (agent, query) \<Rightarrow> Inr (Some agent, PStr query)
             | None \<Rightarrow> Inr (None, v))
      | _ \<Rightarrow> Inl (AttributeError (type_name v) ''startswith''))"

definition parse_llm_response ::
  "world \<Rightarrow> event list \<Rightarrow> pyval \<Rightarrow> (string option \<times> pyval) \<times> event list" where
  "parse_llm_response w tr v =
     (case parse_body v of
        Inr r \<Rightarrow> (r, tr)
      | Inl e \<Rightarrow> ((None, v), tr @ [Log (''Parse error: '' @ exn_str w e)]))"

section \<open>The dispatcher and the interactive loop\<close>

text \<open>
  \<^verbatim>\<open>query.split('(')[0].strip().lower() if query else ""\<close>. On a string this is
  \<open>clean_str\<close> (the empty string is falsy and \<open>clean_str\<close> of it is empty as well). A
  truthy value that is not a string has no \<^verbatim>\<open>split\<close>; the line stands outside the
  \<^verbatim>\<open>try\<close> of the loop, so that exception ends the program.
\<close>

definition clean_str :: "string \<Rightarrow> string" where
  "clean_str s = lower (strip (hd (split_chr (CHR ''('') s)))"

definition clean_query :: "pyval \<Rightarrow> exn + string" where
  "clean_query v =
     (if truthy v then
        (case v of
           PStr s \<Rightarrow> Inr (clean_str s)
         | _ \<Rightarrow> Inl (AttributeError (type_name v) ''split''))
      else Inr [])"

definition valid_agents :: "string list" where
  "valid_agents = [''crypto_asset'', ''stock_asset'', ''weather_asset'', ''web_asset'']"

text \<open>
  \<^verbatim>\<open>getattr(agents, agent_type)(query)\<close> for a valid agent type other than the web
  search.
\<close>

definition call_agent :: "world \<Rightarrow> event list \<Rightarrow> string \<Rightarrow> string \<Rightarrow> string \<times> event list" where
  "call_agent w tr agent_type query =
     (if agent_type = ''crypto_asset'' then crypto_asset w tr query
      else if agent_type = ''stock_asset'' then stock_asset w tr query
      else weather_asset w tr query)"

definition source_line :: "world \<Rightarrow> nat \<times> item \<Rightarrow> event" where
  "source_line w p =
     (case p of (idx, result) \<Rightarrow>
        Print (py_str w (PInt (int idx)) @ ''. '' @ py_str w (title result)
                 @ [CHR 0x0A] @ ''   '' @ py_str w (link result)))"

text \<open>
  The branch of the loop body for a truthy agent type. Its \<^verbatim>\<open>except\<close> clauses have
  nothing to catch: the adapters and the summary return values in every case, and every
  item has the keys that are read from it.
\<close>

definition dispatch :: "world \<Rightarrow> event list \<Rightarrow> string \<Rightarrow> string \<Rightarrow> event list" where
  "dispatch w tr agent_type query =
     (if agent_type \<notin> set valid_agents
      then tr @ [Print (''Assistant: Unknown agent type: '' @ agent_type)]
      else if agent_type = ''web_asset'' then
        (case web_asset w tr query of
           (WebText text, tr1) \<Rightarrow> tr1 @ [Print (''Assistant: '' @ text)]
         | (WebItems results, tr1) \<Rightarrow>
             if results = [] then tr1 @ [Print ''Assistant: No relevant results found.'']
             else
               (case summarize_results w tr1 query results of
                  (summary, tr2) \<Rightarrow>
                    tr2 @ [Print (''Assistant: Here's what I found about '' @ query @ '':''),
                           Print (py_str w summary),
                           Print ([CHR 0x0A] @ ''Sources:'')]
                        @ map (source_line w) (enumerate 1 results)))
      else
        (case call_agent w tr agent_type query of
           (result, tr1) \<Rightarrow> tr1 @ [Print (''Assistant: '' @ result)]))"

text \<open>
  One turn after the model has answered: parse, clean, and either dispatch or print the
  answer as it is. The result is the exception that ended the program, if any, and the
  events.
\<close>

definition handle_response ::
  "world \<Rightarrow> event list \<Rightarrow> pyval \<Rightarrow> exn option \<times> event list" where
  "handle_response w tr llm_response =
     (case parse_llm_response w tr llm_response of
        ((agent_type, query0), tr1) \<Rightarrow>
          (case clean_query query0 of
             Inl e \<Rightarrow> (Some e, tr1)
           | Inr query \<Rightarrow>
               (case agent_type of
                  None \<Rightarrow> (None, tr1 @ [Print (''Assistant: '' @ py_str w llm_response)])
                | Some a \<Rightarrow>
                    if a \<noteq> [] then (None, dispatch w tr1 a query)
                    else (None, tr1 @ [Print (''Assistant: '' @ py_str w llm_response)]))))"

definition main_turn :: "world \<Rightarrow> event list \<Rightarrow> string \<Rightarrow> exn option \<times> event list" where
  "main_turn w tr user_input =
     (case query_llm w tr user_input of
        (llm_response, tr1) \<Rightarrow> handle_response w tr1 llm_response)"

text \<open>
  The loop reads the lines of the standard input one by one. When they run out,
  \<^verbatim>\<open>input\<close> raises \<open>EOFError\<close>, which nothing catches.
\<close>

fun main_loop :: "world \<Rightarrow> event list \<Rightarrow> string list \<Rightarrow> exn option \<times> event list" where
  "main_loop w tr [] = (Some EOFError, tr @ [Prompt ([CHR 0x0A] @ ''User: '')])"
| "main_loop w tr (line # lines) =
     (let tr1 = tr @ [Prompt ([CHR 0x0A] @ ''User: '')];
          user_input = strip line in
      if lower user_input \<in> set [''exit'', ''quit''] then (None, tr1)
      else
        (case main_turn w tr1 user_input of
           (Some e, tr2) \<Rightarrow> (Some e, tr2)
         | (None, tr2) \<Rightarrow> main_loop w tr2 lines))"

definition main :: "world \<Rightarrow> string list \<Rightarrow> exn option \<times> event list" where
  "main w lines =
     main_loop w [Print ''Search Agent System Initialized. Type 'exit' to quit.''] lines"

text \<open>Two worlds to run the program in: one without network and keys, one whose web
  search answers with no items.\<close>

definition offline :: world where
  "offline = \<lparr>getenv = (\<lambda>_. None),
              http_get = (\<lambda>_ _. Inl (Raised ''offline'')),
              http_post = (\<lambda>_ _ _. Inl (Raised ''offline'')),
              str_other = (\<lambda>_. ''?''),
              exn_text = (\<lambda>_. ''error''),
              py_upper = (\<lambda>s. s),
              py_capitalize = (\<lambda>s. s)\<rparr>"

definition no_hits :: world where
  "no_hits = offline\<lparr>getenv := (\<lambda>_. Some ''k''),
                     http_get := (\<lambda>_ _. Inr \<lparr>status_code = 200, json = Inr (PDict []),
                                               http_error = []\<rparr>)\<rparr>"

text \<open>The events that are HTTP POST requests: the calls of the language model.\<close>

fun is_post :: "event \<Rightarrow> bool" where
  "is_post (HttpPost url req) = True"
| "is_post _ = False"

section \<open>Facts about the string functions\<close>

lemma lower_char_idem: "lower_char (lower_char c) = lower_char c"
  by (auto simp: lower_char_def Let_def)

lemma isspace_lower_char: "isspace (lower_char c) = isspace c"
  by (auto simp: lower_char_def isspace_def Let_def)

lemma lower_char_eq_paren: "lower_char c = CHR ''('' \<longleftrightarrow> c = CHR ''(''"
  by (auto simp: lower_char_def Let_def char_of_eq_iff take_bit_eq_mod)

lemma lower_char_bracket: "lower_char c = CHR ''['' \<longleftrightarrow> c = CHR ''[''"
  by (auto simp: lower_char_def Let_def char_of_eq_iff take_bit_eq_mod)

lemma split_chr_not_Nil: "split_chr c s \<noteq> []"
  by (induction s) (auto split: list.splits)

lemma hd_split_chr: "hd (split_chr c s) = takeWhile (\<lambda>x. x \<noteq> c) s"
  by (induction s) (auto simp: split_chr_not_Nil split: list.splits)

lemma dropWhile_all_Nil: "(\<forall>x\<in>set (dropWhile P xs). P x) \<longleftrightarrow> dropWhile P xs = []"
proof (cases "dropWhile P xs")
  case Nil
  then show ?thesis by (simp del: dropWhile_eq_Nil_conv)
next
  case (Cons a as)
  then have "\<not> P a" using hd_dropWhile[of P xs] by simp
  with Cons show ?thesis by auto
qed

lemma last_dropWhile_eq: "dropWhile P xs \<noteq> [] \<Longrightarrow> last (dropWhile P xs) = last xs"
proof -
  assume a: "dropWhile P xs \<noteq> []"
  have "last xs = last (takeWhile P xs @ dropWhile P xs)" by simp
  also have "\<dots> = last (dropWhile P xs)" using a by (simp only: last_append if_False)
  finally show ?thesis by simp
qed

lemma strip_Nil_iff: "strip s = [] \<longleftrightarrow> list_all isspace s"
proof -
  have "strip s = [] \<longleftrightarrow> (\<forall>x\<in>set (dropWhile isspace s). isspace x)"
    by (simp add: strip_def)
  also have "\<dots> \<longleftrightarrow> dropWhile isspace s = []" by (rule dropWhile_all_Nil)
  finally show ?thesis by (simp add: list_all_iff)
qed

lemma set_strip: "set (strip s) \<subseteq> set s"
  unfolding strip_def by (auto dest!: set_dropWhileD)

text \<open>A string that neither starts nor ends with white space is left as it is.\<close>

lemma strip_fixed:
  assumes "s = [] \<or> (\<not> isspace (hd s) \<and> \<not> isspace (last s))"
  shows "strip s = s"
proof (cases s)
  case Nil
  then show ?thesis by (simp add: strip_def)
next
  case (Cons a as)
  with assms have h: "\<not> isspace (hd s)" and l: "\<not> isspace (last s)" by auto
  from Cons h have 1: "dropWhile isspace s = s" by simp
  from Cons l have 2: "dropWhile isspace (rev s) = rev s"
    by (cases "rev s") (auto simp: last_rev hd_rev[symmetric])
  show ?thesis by (simp add: strip_def 1 2)
qed

lemma strip_ends:
  "strip s = [] \<or> (\<not> isspace (hd (strip s)) \<and> \<not> isspace (last (strip s)))"
proof (cases "strip s = []")
  case True
  then show ?thesis by simp
next
  case False
  define t where "t = dropWhile isspace s"
  define u where "u = dropWhile isspace (rev t)"
  have s: "strip s = rev u" by (simp add: strip_def t_def u_def)
  with False have u: "u \<noteq> []" by simp
  then have t: "t \<noteq> []" by (auto simp: u_def)
  from u have "\<not> isspace (hd u)" unfolding u_def by (rule hd_dropWhile)
  then have l: "\<not> isspace (last (strip s))" using u by (simp add: s last_rev)
  have "last u = last (rev t)" using u unfolding u_def by (rule last_dropWhile_eq)
  also have "\<dots> = hd t" using t by (simp add: last_rev)
  finally have "hd (strip s) = hd t" using u by (simp add: s hd_rev)
  moreover have "\<not> isspace (hd t)" using t unfolding t_def by (rule hd_dropWhile)
  ultimately show ?thesis using l by simp
qed

lemma strip_strip: "strip (strip s) = strip s"
  by (rule strip_fixed) (rule strip_ends)

lemma strip_lower: "strip (lower s) = lower (strip s)"
  by (simp add: strip_def lower_def dropWhile_map rev_map comp_def isspace_lower_char)

lemma lower_lower: "lower (lower s) = lower s"
  by (simp add: lower_def lower_char_idem)

lemma strip_space_Cons: "isspace c \<Longrightarrow> strip (c # s) = strip s"
  by (simp add: strip_def)

section \<open>Cleaning the query\<close>

lemma clean_str_eq: "clean_str s = lower (strip (takeWhile (\<lambda>x. x \<noteq> CHR ''('') s))"
  by (simp add: clean_str_def hd_split_chr)

lemma paren_notin_clean: "CHR ''('' \<notin> set (clean_str s)"
proof
  assume "CHR ''('' \<in> set (clean_str s)"
  then obtain c where c: "c \<in> set (strip (takeWhile (\<lambda>x. x \<noteq> CHR ''('') s))"
    and "lower_char c = CHR ''(''"
    by (auto simp: clean_str_eq lower_def)
  then have "c = CHR ''(''" by (simp add: lower_char_eq_paren)
  moreover from c have "c \<in> set (takeWhile (\<lambda>x. x \<noteq> CHR ''('') s)"
    using set_strip by blast
  ultimately show False by (auto dest: set_takeWhileD)
qed

lemma clean_str_idem: "clean_str (clean_str s) = clean_str s"
proof -
  have tw: "takeWhile (\<lambda>x. x \<noteq> CHR ''('') (clean_str s) = clean_str s"
    using paren_notin_clean[of s] by auto
  have "clean_str (clean_str s)
          = lower (strip (takeWhile (\<lambda>x. x \<noteq> CHR ''('') (clean_str s)))"
    by (rule clean_str_eq)
  also have "\<dots> = lower (strip (clean_str s))" by (simp only: tw)
  also have "\<dots> = clean_str s"
    by (simp add: clean_str_eq[of s] strip_lower strip_strip lower_lower)
  finally show ?thesis .
qed

lemma clean_query_str: "clean_query (PStr s) = Inr (clean_str s)"
  by (cases s) (simp_all add: clean_query_def clean_str_def strip_def lower_def)

text \<open>
  Claim C2, as the code has it. The cleaned query of a raw query string is empty exactly
  when the part of the raw query before its first \<open>(\<close> holds nothing but white space.
  The empty raw query is one such case, so it gives the empty cleaned query; a raw query
  that is not empty gives a cleaned query that is not empty only if a character other
  than white space stands before its first \<open>(\<close>.
\<close>

theorem clean_empty_iff:
  "(clean_query (PStr s) = Inr []) = list_all isspace (takeWhile (\<lambda>x. x \<noteq> CHR ''('') s)"
  by (simp add: clean_query_str clean_str_eq lower_def strip_Nil_iff)

text \<open>
  The raw query \<open>(approx)\<close> is not empty and its cleaned query is: the claim that only the
  empty raw query has an empty cleaned query fails there.
\<close>

theorem clean_empty_counterexample:
  "''(approx)'' \<noteq> [] \<and> clean_query (PStr ''(approx)'') = Inr []"
  by (simp add: clean_query_def clean_str_def strip_def lower_def)

text \<open>
  Claim C6. Cleaning is idempotent: on every string the cleaning returns a string, and
  cleaning that string once more returns it unchanged.
\<close>

theorem clean_idempotent:
  "clean_query (PStr s) = Inr (clean_str s) \<and>
   clean_query (PStr (clean_str s)) = Inr (clean_str s)"
  by (simp add: clean_query_str clean_str_idem)

section \<open>The response parser\<close>

lemma partition_bracket:
  assumes "CHR '']'' \<notin> set X"
  shows "partition_chr (CHR '']'') (''['' @ X @ '']'' @ R) = (''['' @ X, '']'', R)"
proof -
  have "\<forall>x\<in>set (''['' @ X). x \<noteq> CHR '']''" using assms by auto
  then have tw: "takeWhile (\<lambda>x. x \<noteq> CHR '']'') ((''['' @ X) @ CHR '']'' # R) = ''['' @ X"
    and dw: "dropWhile (\<lambda>x. x \<noteq> CHR '']'') ((''['' @ X) @ CHR '']'' # R) = CHR '']'' # R"
    by (simp_all only: takeWhile_append2 dropWhile_append2 takeWhile.simps dropWhile.simps
          simp_thms if_False append_Nil2)
  show ?thesis using tw dw by (simp add: partition_chr_def)
qed

lemma parse_body_bracket:
  assumes "CHR '']'' \<notin> set X"
  shows "parse_body (PStr (''['' @ X @ '']'' @ R)) = Inr (Some (strip X), PStr (strip R))"
  using partition_bracket[OF assms, of R]
  by (simp add: parse_body_def startswith_def)

text \<open>
  Claim C3, as the code has it. For every raw model text of the form \<open>[X] Y\<close> in which
  \<open>X\<close> holds no \<open>]\<close> (whatever \<open>Y\<close> holds): the parser returns \<open>X\<close> stripped of
  surrounding white space as the agent type and \<open>Y\<close> stripped of surrounding white space
  as the query, and logs nothing. The text is split at its first \<open>]\<close>, so the condition
  is on \<open>X\<close>, not on \<open>Y\<close>.
\<close>

theorem parse_bracket_form:
  assumes "CHR '']'' \<notin> set X"
  shows "parse_llm_response w tr (PStr (''['' @ X @ ''] '' @ Y))
           = ((Some (strip X), PStr (strip Y)), tr)"
proof -
  have "parse_body (PStr (''['' @ X @ '']'' @ ('' '' @ Y)))
          = Inr (Some (strip X), PStr (strip ('' '' @ Y)))"
    using assms by (rule parse_body_bracket)
  moreover have "strip ('' '' @ Y) = strip Y"
    by (simp add: strip_space_Cons isspace_def)
  ultimately show ?thesis by (simp add: parse_llm_response_def)
qed

theorem parse_bracket_form_witness:
  "CHR '']'' \<notin> set ''crypto_asset'' \<and>
   parse_llm_response offline [] (PStr ''[crypto_asset] ethereum'')
     = ((Some ''crypto_asset'', PStr ''ethereum''), [])"
  using parse_bracket_form[of "''crypto_asset''" offline "[]" "''ethereum''"]
  by (simp add: strip_def isspace_def)

text \<open>
  With \<open>X\<close> = \<open>a]b\<close>, which is not empty, and \<open>Y\<close> = \<open>c\<close>, which holds no \<open>]\<close>,
  the text is \<open>[a]b] c\<close> and the parser returns the agent type \<open>a\<close> and the query
  \<open>b] c\<close>, not \<open>a]b\<close> and \<open>c\<close>.
\<close>

theorem parse_bracket_form_counterexample:
  "''a]b'' \<noteq> [] \<and> CHR '']'' \<notin> set ''c'' \<and>
   fst (parse_llm_response offline [] (PStr (''['' @ ''a]b'' @ ''] '' @ ''c'')))
     \<noteq> (Some (strip ''a]b''), PStr (strip ''c''))"
  by (simp add: parse_llm_response_def parse_body_def startswith_def partition_chr_def
        strip_def isspace_def)

lemma prefix_fallback_None:
  "\<forall>a\<in>set agents. \<not> startswith (lower s) (a @ '' '') \<Longrightarrow> prefix_fallback s agents = None"
  by (induction agents) simp_all

text \<open>No text starts with two different labels, each followed by a space.\<close>

lemma labels_exclusive:
  assumes "a \<in> set agent_labels" "b \<in> set agent_labels"
    and "startswith t (a @ '' '')" "startswith t (b @ '' '')"
  shows "a = b"
proof -
  from assms(3,4) have "prefix (a @ '' '') (b @ '' '') \<or> prefix (b @ '' '') (a @ '' '')"
    unfolding startswith_def by (rule prefix_same_cases)
  with assms(1,2) show ?thesis by (auto simp: agent_labels_def)
qed

lemma prefix_fallback_first:
  assumes "a \<in> set agents" "set agents \<subseteq> set agent_labels"
    and "startswith (lower s) (a @ '' '')"
  shows "prefix_fallback s agents = Some (a, strip (drop (length a + 1) s))"
  using assms(1,2)
proof (induction agents)
  case Nil
  then show ?case by simp
next
  case (Cons b bs)
  show ?case
  proof (cases "startswith (lower s) (b @ '' '')")
    case True
    have "a \<in> set agent_labels" "b \<in> set agent_labels" using Cons.prems by auto
    then have "a = b" using assms(3) True by (rule labels_exclusive)
    with True show ?thesis by simp
  next
    case False
    with assms(3) have "a \<noteq> b" by auto
    with Cons.prems have "a \<in> set bs" "set bs \<subseteq> set agent_labels" by auto
    then have "prefix_fallback s bs = Some (a, strip (drop (length a + 1) s))"
      by (rule Cons.IH)
    with False show ?thesis by simp
  qed
qed

lemma label_no_bracket:
  assumes "a \<in> set agent_labels" "startswith (lower s) (a @ '' '')"
  shows "\<not> startswith s ''[''"
proof
  assume "startswith s ''[''"
  then obtain r where s: "s = CHR ''['' # r" by (auto simp: startswith_def prefix_def)
  have "lower_char (CHR ''['') = CHR ''[''" by (simp add: lower_char_bracket)
  then have "lower s = CHR ''['' # lower r" by (simp add: s lower_def)
  with assms show False by (auto simp: agent_labels_def startswith_def)
qed

text \<open>
  Claim C4, as the code has it. For every raw model text whose lower-cased form starts
  with a known label followed by a space (such a text never starts with \<open>[\<close>): the
  parser returns that label as the agent type, and as the query the remainder after the
  label and the space, stripped of surrounding white space; it logs nothing.
\<close>

theorem parse_bare_prefix:
  assumes "a \<in> set agent_labels" and "startswith (lower s) (a @ '' '')"
  shows "parse_llm_response w tr (PStr s)
           = ((Some a, PStr (strip (drop (length (a @ '' '')) s))), tr)"
proof -
  have "\<not> startswith s ''[''" using assms by (rule label_no_bracket)
  moreover have "prefix_fallback s agent_labels = Some (a, strip (drop (length a + 1) s))"
    using assms(1) subset_refl assms(2) by (rule prefix_fallback_first)
  ultimately show ?thesis by (simp add: parse_llm_response_def parse_body_def)
qed

theorem parse_bare_prefix_witness:
  "''stock_asset'' \<in> set agent_labels \<and>
   startswith (lower ''stock_asset tsla'') (''stock_asset'' @ '' '') \<and>
   parse_llm_response offline [] (PStr ''stock_asset tsla'')
     = ((Some ''stock_asset'', PStr ''tsla''), [])"
proof -
  have a: "''stock_asset'' \<in> set agent_labels" by (simp add: agent_labels_def)
  have b: "startswith (lower ''stock_asset tsla'') (''stock_asset'' @ '' '')"
    by (simp add: startswith_def lower_def lower_char_def)
  have c: "strip (drop (length (''stock_asset'' @ '' '')) ''stock_asset tsla'') = ''tsla''"
    by (simp add: strip_def isspace_def)
  show ?thesis using a b parse_bare_prefix[OF a b, of offline "[]"] by (simp only: c simp_thms)
qed

text \<open>
  The text \<open>stock_asset  tsla\<close>, with two spaces, does not start with \<open>[\<close> and starts
  with the label and a space. The remainder after that prefix starts with the second
  space; the query the parser returns does not.
\<close>

theorem parse_bare_prefix_counterexample:
  "\<not> startswith ''stock_asset  tsla'' ''['' \<and>
   startswith (lower ''stock_asset  tsla'') (''stock_asset'' @ '' '') \<and>
   fst (parse_llm_response offline [] (PStr ''stock_asset  tsla''))
     \<noteq> (Some ''stock_asset'',
         PStr (drop (length (''stock_asset'' @ '' '')) ''stock_asset  tsla''))"
  by (simp add: parse_llm_response_def parse_body_def startswith_def agent_labels_def
        lower_def lower_char_def strip_def isspace_def)

text \<open>
  Claim C5. For every raw model text that is not of the bracket form (it does not both
  start with \<open>[\<close> and hold a \<open>]\<close>) and whose lower-cased form starts with no known
  label followed by a space: the parser returns no agent type and, as the query, the
  text itself, unchanged.
\<close>

theorem parse_no_match:
  assumes "\<not> (startswith s ''['' \<and> CHR '']'' \<in> set s)"
    and "\<forall>a\<in>set agent_labels. \<not> startswith (lower s) (a @ '' '')"
  shows "parse_llm_response w tr (PStr s) = ((None, PStr s), tr)"
proof -
  have "prefix_fallback s agent_labels = None" using assms(2) by (rule prefix_fallback_None)
  moreover have "(startswith s ''['' \<and> CHR '']'' \<in> set s) = False" using assms(1) by simp
  ultimately show ?thesis
    by (simp only: parse_llm_response_def parse_body_def pyval.case if_False option.case
          sum.case)
qed

theorem parse_no_match_witness:
  "\<not> (startswith ''I think the weather is nice'' ''[''
       \<and> CHR '']'' \<in> set ''I think the weather is nice'') \<and>
   list_all (\<lambda>a. \<not> startswith (lower ''I think the weather is nice'') (a @ '' ''))
     agent_labels \<and>
   parse_llm_response offline [] (PStr ''I think the weather is nice'')
     = ((None, PStr ''I think the weather is nice''), [])"
proof -
  have a: "\<not> (startswith ''I think the weather is nice'' ''[''
       \<and> CHR '']'' \<in> set ''I think the weather is nice'')"
    by (simp add: startswith_def)
  have b: "\<forall>a\<in>set agent_labels.
      \<not> startswith (lower ''I think the weather is nice'') (a @ '' '')"
    by (simp add: agent_labels_def startswith_def lower_def lower_char_def)
  show ?thesis using a b parse_no_match[OF a b, of offline "[]"]
    by (simp only: list_all_iff simp_thms)
qed

lemma parse_body_str: "\<exists>r. parse_body (PStr s) = Inr r"
  by (simp add: parse_body_def split: prod.splits option.splits)

text \<open>
  Claim C9. On every string the body of the parser raises nothing and the parser
  returns the pair the body computed, with nothing logged. Whenever the body raises,
  on any value, the parser still returns a pair: no agent type, and the whole input as
  the query.
\<close>

theorem parse_never_raises:
  "(\<exists>r. parse_body (PStr s) = Inr r \<and> parse_llm_response w tr (PStr s) = (r, tr)) \<and>
   (\<forall>e. parse_body v = Inl e \<longrightarrow> fst (parse_llm_response w tr v) = (None, v))"
proof -
  obtain r where "parse_body (PStr s) = Inr r" using parse_body_str by blast
  then show ?thesis by (auto simp: parse_llm_response_def)
qed

theorem parse_never_raises_witness:
  "parse_body PNone = Inl (AttributeError ''NoneType'' ''startswith'') \<and>
   fst (parse_llm_response offline [] PNone) = (None, PNone)"
proof -
  have a: "parse_body PNone = Inl (AttributeError ''NoneType'' ''startswith'')"
    by (simp add: parse_body_def)
  show ?thesis using a parse_never_raises[of "[]" offline "[]" PNone] by blast
qed

section \<open>The dispatcher\<close>

text \<open>
  When the parser returns an agent type, it has logged nothing and the query is a
  string.
\<close>

lemma parse_Some_query_str:
  assumes "fst (fst (parse_llm_response w tr r)) = Some a"
  shows "\<exists>q. parse_llm_response w tr r = ((Some a, PStr q), tr)"
proof (cases r)
  case (PStr s)
  with assms show ?thesis
    by (auto simp: parse_llm_response_def parse_body_def
             split: if_splits prod.splits option.splits)
qed (use assms in \<open>simp_all add: parse_llm_response_def parse_body_def\<close>)

text \<open>
  Claim C7. For every model response whose parsed agent type is not empty and is not one
  of the four registered labels: the turn ends normally, and all it adds to the events is
  one printed line, \<open>Assistant: Unknown agent type: \<close> followed by that label. No
  request is sent and nothing is logged, so no adapter has run.
\<close>

theorem unknown_agent_notice:
  assumes "fst (fst (parse_llm_response w tr r)) = Some a"
    and "a \<noteq> []" and "a \<notin> set valid_agents"
  shows "handle_response w tr r
           = (None, tr @ [Print (''Assistant: Unknown agent type: '' @ a)])"
proof -
  obtain q where "parse_llm_response w tr r = ((Some a, PStr q), tr)"
    using assms(1) parse_Some_query_str by blast
  then show ?thesis using assms(2,3)
    by (simp add: handle_response_def clean_query_str dispatch_def)
qed

theorem unknown_agent_notice_witness:
  "fst (fst (parse_llm_response offline [] (PStr ''[currency_asset] euro'')))
     = Some ''currency_asset'' \<and>
   ''currency_asset'' \<noteq> [] \<and> ''currency_asset'' \<notin> set valid_agents \<and>
   handle_response offline [] (PStr ''[currency_asset] euro'')
     = (None, [Print ''Assistant: Unknown agent type: currency_asset''])"
proof -
  have a: "fst (fst (parse_llm_response offline [] (PStr ''[currency_asset] euro'')))
     = Some ''currency_asset''"
    by (simp add: parse_llm_response_def parse_body_def startswith_def partition_chr_def
          strip_def isspace_def)
  have b: "''currency_asset'' \<noteq> []" by simp
  have c: "''currency_asset'' \<notin> set valid_agents" by (simp add: valid_agents_def)
  show ?thesis using a b c unknown_agent_notice[OF a b c] by simp
qed

text \<open>The web search only extends the events, and with no POST request.\<close>

lemma web_asset_trace:
  "\<exists>evs. snd (web_asset w tr q) = tr @ evs \<and> filter is_post evs = []"
  by (auto simp: web_asset_def Let_def split: option.splits sum.splits)

text \<open>
  Claim C8. For every model response parsed to the agent type \<open>web_asset\<close> with a query
  \<open>q\<close>, when the web search on the cleaned query returns the empty list of items: the
  turn ends normally, its events are those of the web search followed by the printed line
  \<open>Assistant: No relevant results found.\<close>, and handling the response adds no POST
  request to the events, so the summary is never asked for.
\<close>

theorem web_no_results:
  assumes "fst (parse_llm_response w tr r) = (Some ''web_asset'', PStr q)"
    and "fst (web_asset w tr (clean_str q)) = WebItems []"
  shows "handle_response w tr r
           = (None, snd (web_asset w tr (clean_str q))
                      @ [Print ''Assistant: No relevant results found.'']) \<and>
         filter is_post (snd (handle_response w tr r)) = filter is_post tr"
proof -
  from assms(1) have "fst (fst (parse_llm_response w tr r)) = Some ''web_asset''" by simp
  then obtain q' where p: "parse_llm_response w tr r = ((Some ''web_asset'', PStr q'), tr)"
    using parse_Some_query_str by blast
  with assms(1) have q: "q' = q" by simp
  obtain tr1 where w: "web_asset w tr (clean_str q) = (WebItems [], tr1)"
    using assms(2) by (cases "web_asset w tr (clean_str q)") simp
  have h: "handle_response w tr r
      = (None, tr1 @ [Print ''Assistant: No relevant results found.''])"
    using p q w by (simp add: handle_response_def clean_query_str dispatch_def valid_agents_def)
  obtain evs where "tr1 = tr @ evs" "filter is_post evs = []"
    using web_asset_trace[of w tr "clean_str q"] w by auto
  with h w show ?thesis by simp
qed

theorem web_no_results_witness:
  "fst (parse_llm_response no_hits [] (PStr ''[web_asset] pixel 9 reviews''))
     = (Some ''web_asset'', PStr ''pixel 9 reviews'') \<and>
   fst (web_asset no_hits [] (clean_str ''pixel 9 reviews'')) = WebItems [] \<and>
   handle_response no_hits [] (PStr ''[web_asset] pixel 9 reviews'')
     = (None, [HttpGet (web_url ''k'' ''k'' ''pixel 9 reviews''),
               Print ''Assistant: No relevant results found.''])"
proof -
  have a: "fst (parse_llm_response no_hits [] (PStr ''[web_asset] pixel 9 reviews''))
     = (Some ''web_asset'', PStr ''pixel 9 reviews'')"
    by (simp add: parse_llm_response_def parse_body_def startswith_def partition_chr_def
          strip_def isspace_def)
  have c: "clean_str ''pixel 9 reviews'' = ''pixel 9 reviews''"
    by (simp add: clean_str_def strip_def isspace_def lower_def lower_char_def)
  have w: "web_asset no_hits [] ''pixel 9 reviews''
             = (WebItems [], [HttpGet (web_url ''k'' ''k'' ''pixel 9 reviews'')])"
    by (simp add: web_asset_def no_hits_def offline_def and_then_def web_body_def
          py_get_def py_slice3_def)
  have b: "fst (web_asset no_hits [] (clean_str ''pixel 9 reviews'')) = WebItems []"
    by (simp add: c w)
  show ?thesis using a b web_no_results[OF a b] by (simp add: c w)
qed

text \<open>
  Claim C10. For every model text that starts with \<open>[]\<close>: the parser returns the empty
  string as the agent type (and the stripped rest as the query); the turn then ends
  normally and adds one printed line to the events, \<open>Assistant: \<close> followed by the model
  text as it is, not the notice of an unknown agent type.
\<close>

theorem empty_brackets_general_answer:
  "fst (parse_llm_response w tr (PStr (''[]'' @ rest))) = (Some [], PStr (strip rest)) \<and>
   handle_response w tr (PStr (''[]'' @ rest))
     = (None, tr @ [Print (''Assistant: '' @ ''[]'' @ rest)])"
proof -
  have "parse_body (PStr (''['' @ [] @ '']'' @ rest)) = Inr (Some (strip []), PStr (strip rest))"
    by (rule parse_body_bracket) simp
  then have "parse_llm_response w tr (PStr (''[]'' @ rest))
      = ((Some [], PStr (strip rest)), tr)"
    by (simp add: parse_llm_response_def strip_def)
  then show ?thesis by (simp add: handle_response_def clean_query_str py_str_def)
qed

section \<open>The validation of the coin identifier\<close>

text \<open>
  Claim C1, as the code has it. The crypto adapter strips and lower-cases its input and
  tests the result against the pattern. When the result does not match, the adapter
  returns the \<open>Invalid cryptocurrency format\<close> message and adds no event: no request is
  attempted. When it matches, the next event is the GET request for that identifier.
  \<open>bitcoin-cash\<close> matches; \<open>BTC\<close> matches as well, since it is tested as \<open>btc\<close>;
  \<open>btc$\<close> does not match.
\<close>

theorem crypto_validation:
  "(\<not> re_match_coin (lower (strip q)) \<longrightarrow> crypto_asset w tr q = (invalid_crypto_msg, tr)) \<and>
   (re_match_coin (lower (strip q)) \<longrightarrow>
      (\<exists>evs. snd (crypto_asset w tr q)
               = tr @ HttpGet (crypto_url (lower (strip q))) # evs)) \<and>
   re_match_coin (lower (strip ''bitcoin-cash'')) \<and>
   re_match_coin (lower (strip ''BTC'')) \<and>
   \<not> re_match_coin (lower (strip ''btc$''))"
proof -
  have 1: "re_match_coin (lower (strip ''bitcoin-cash''))" by code_simp
  have 2: "re_match_coin (lower (strip ''BTC''))" by code_simp
  have 3: "\<not> re_match_coin (lower (strip ''btc$''))" by code_simp
  have 4: "\<not> re_match_coin (lower (strip q)) \<longrightarrow>
             crypto_asset w tr q = (invalid_crypto_msg, tr)"
    by (simp add: crypto_asset_def)
  have 5: "re_match_coin (lower (strip q)) \<longrightarrow>
      (\<exists>evs. snd (crypto_asset w tr q) = tr @ HttpGet (crypto_url (lower (strip q))) # evs)"
    by (simp add: crypto_asset_def Let_def split: sum.splits)
  from 1 2 3 4 5 show ?thesis by blast
qed

theorem crypto_validation_witness:
  "\<not> re_match_coin (lower (strip ''btc$'')) \<and>
   crypto_asset offline [] ''btc$'' = (invalid_crypto_msg, []) \<and>
   re_match_coin (lower (strip ''BTC'')) \<and>
   (\<exists>evs. snd (crypto_asset offline [] ''BTC'')
            = [] @ HttpGet (crypto_url (lower (strip ''BTC''))) # evs)"
  using crypto_validation[of "''btc$''" offline "[]"]
        crypto_validation[of "''BTC''" offline "[]"]
  by blast

text \<open>
  On the input \<open>BTC\<close>, with no network, the adapter sends the request for \<open>btc\<close> and
  returns the report of the failed request, not the \<open>Invalid cryptocurrency format\<close>
  message.
\<close>

theorem crypto_validation_counterexample:
  "snd (crypto_asset offline [] ''BTC'')
     = [HttpGet ''https://api.coingecko.com/api/v3/simple/price?ids=btc&vs_currencies=usd'',
        Log ''Error fetching cryptocurrency data''] \<and>
   fst (crypto_asset offline [] ''BTC'') \<noteq> invalid_crypto_msg"
  by code_simp

end
